theory Spec2Isabelle
  imports Main "HOL-Library.Sublist"
begin

section \<open>Python strings\<close>

text \<open>
  A Python \<open>str\<close> is modelled as a list of characters. The three string methods that
  \<open>gdb_client.py\<close> uses on type strings are written out: \<open>sub in s\<close>, \<open>s.find(sub)\<close>
  and \<open>s.replace(old, new)\<close>. \<open>replace\<close> scans from the left and, after a match,
  continues behind the matched text, so the replaced occurrences never overlap.
\<close>

fun str_contains :: "'a list \<Rightarrow> 'a list \<Rightarrow> bool" where
  "str_contains [] sub = (sub = [])"
| "str_contains (c # cs) sub = (prefix sub (c # cs) \<or> str_contains cs sub)"

fun find_from :: "nat \<Rightarrow> 'a list \<Rightarrow> 'a list \<Rightarrow> int" where
  "find_from i [] sub = (if sub = [] then int i else - 1)"
| "find_from i (c # cs) sub = (if prefix sub (c # cs) then int i else find_from (Suc i) cs sub)"

definition str_find :: "'a list \<Rightarrow> 'a list \<Rightarrow> int" where
  "str_find s sub = find_from 0 s sub"

function replace :: "'a list \<Rightarrow> 'a list \<Rightarrow> 'a list \<Rightarrow> 'a list" where
  "replace s old new =
     (if old = [] then new @ concat (map (\<lambda>c. c # new) s)
      else if s = [] then []
      else if prefix old s then new @ replace (drop (length old) s) old new
      else hd s # replace (tl s) old new)"
  by pat_completeness auto
termination
  by (relation "measure (\<lambda>(s, old, new). length s)") auto

text \<open>The slices \<open>s[:i]\<close> and \<open>s[i:]\<close>; a negative index counts from the end.\<close>

definition slice_to :: "'a list \<Rightarrow> int \<Rightarrow> 'a list" where
  "slice_to s i = (if i < 0 then take (nat (int (length s) + i)) s else take (nat i) s)"

definition slice_from :: "'a list \<Rightarrow> int \<Rightarrow> 'a list" where
  "slice_from s i = (if i < 0 then drop (nat (int (length s) + i)) s else drop (nat i) s)"

text \<open>
  \<open>s.split()\<close> without arguments cuts at runs of white space and returns no empty
  word. White space is what \<open>str.isspace\<close> accepts; a string is taken to hold code
  points below 256.
\<close>

definition is_space :: "char \<Rightarrow> bool" where
  "is_space c = (c \<in> set [CHR 0x09, CHR 0x0A, CHR 0x0B, CHR 0x0C, CHR 0x0D, CHR 0x1C,
                            CHR 0x1D, CHR 0x1E, CHR 0x1F, CHR 0x20, CHR 0x85, CHR 0xA0])"

fun split_acc :: "string \<Rightarrow> string \<Rightarrow> string list" where
  "split_acc [] cur = (if cur = [] then [] else [cur])"
| "split_acc (c # cs) cur =
     (if is_space c then (if cur = [] then split_acc cs [] else cur # split_acc cs [])
      else split_acc cs (cur @ [c]))"

definition split :: "string \<Rightarrow> string list" where
  "split arg = split_acc arg []"

section \<open>Python values and errors\<close>

text \<open>
  The attributes the program stores are dynamically typed: a base address is an integer
  or \<open>None\<close>, a namespace attribute is a string, an integer or \<open>None\<close>.
\<close>

datatype pyval = PyStr string | PyInt int | PyNone

datatype error =
    TypeError
  | ValueError string
  | AttributeError string
  | RecursionError
  | SystemExit

text \<open>Truth value of an object, as \<open>not x\<close> tests it.\<close>

fun truthy :: "pyval \<Rightarrow> bool" where
  "truthy (PyStr s) = (s \<noteq> [])"
| "truthy (PyInt i) = (i \<noteq> 0)"
| "truthy PyNone = False"

subsection \<open>Integers and their literals\<close>

text \<open>
  The decimal and hexadecimal digits of an integer. \<open>hex(n)\<close> has no limit; \<open>str(n)\<close>
  and the formatting of an integer inside an f-string raise \<open>ValueError\<close> when the
  integer has more than 4300 decimal digits (the interpreter's default limit on
  conversions between integers and decimal text).
\<close>

definition digit_char :: "nat \<Rightarrow> char" where
  "digit_char d = (if d < 10 then char_of (48 + d) else char_of (87 + d))"

function show_nat :: "nat \<Rightarrow> nat \<Rightarrow> string" where
  "show_nat b n =
     (if b < 2 \<or> n < b then [digit_char n] else show_nat b (n div b) @ [digit_char (n mod b)])"
  by pat_completeness auto
termination
  by (relation "measure (\<lambda>(b, n). n)") auto

definition show_int :: "int \<Rightarrow> string" where
  "show_int i = (if i < 0 then CHR ''-'' # show_nat 10 (nat (- i)) else show_nat 10 (nat i))"

definition max_str_digits :: nat where
  "max_str_digits = 4300"

definition str_int :: "int \<Rightarrow> string option" where
  "str_int i =
     (if length (show_nat 10 (nat \<bar>i\<bar>)) > max_str_digits then None else Some (show_int i))"

definition hex :: "int \<Rightarrow> string" where
  "hex i = (if i < 0 then ''-0x'' @ show_nat 16 (nat (- i)) else ''0x'' @ show_nat 16 (nat i))"

text \<open>\<open>str(x)\<close> of a value, as an f-string formats it.\<close>

fun py_str :: "pyval \<Rightarrow> error + string" where
  "py_str (PyStr s) = Inr s"
| "py_str (PyInt i) =
     (case str_int i of
        None \<Rightarrow> Inl (ValueError ''Exceeds the limit (4300 digits) for integer string conversion'')
      | Some text \<Rightarrow> Inr text)"
| "py_str PyNone = Inr ''None''"

text \<open>
  \<open>int(s, 0)\<close> of a string of code points below 256: optional white space around, an
  optional sign, a prefix \<open>0x\<close>, \<open>0o\<close> or \<open>0b\<close> in either case selecting the base,
  digits with single underscores between them (one is allowed right behind a prefix),
  and no leading zero in a decimal literal that is not zero. \<open>None\<close> stands for the
  \<open>ValueError\<close> that \<open>int\<close> raises. The white space of \<open>int\<close> is narrower than that
  of \<open>split\<close>: tab to carriage return, the blank, and the two spaces 0x85 and 0xA0
  beyond ASCII, but not the separators 0x1C to 0x1F. A decimal literal of more than 4300
  digits, leading zeros counted, is refused (the same default limit); literals with a
  prefix have no limit.
\<close>

definition is_int_space :: "char \<Rightarrow> bool" where
  "is_int_space c =
     (c \<in> set [CHR 0x09, CHR 0x0A, CHR 0x0B, CHR 0x0C, CHR 0x0D, CHR 0x20, CHR 0x85, CHR 0xA0])"

definition digit_val :: "char \<Rightarrow> nat option" where
  "digit_val c =
     (let n = (of_char c :: nat)
      in if 48 \<le> n \<and> n \<le> 57 then Some (n - 48)
         else if 97 \<le> n \<and> n \<le> 122 then Some (n - 87)
         else if 65 \<le> n \<and> n \<le> 90 then Some (n - 55)
         else None)"

text \<open>
  The digit scan: it stops at the first character that is neither a digit of the base nor
  an underscore, and fails on two underscores in a row or on an underscore at its end.
  It returns the digit values and the unread rest.
\<close>

fun scan_digits :: "nat \<Rightarrow> bool \<Rightarrow> string \<Rightarrow> (nat list \<times> string) option" where
  "scan_digits base prev_us [] = (if prev_us then None else Some ([], []))"
| "scan_digits base prev_us (c # cs) =
     (if c = CHR ''_'' then (if prev_us then None else scan_digits base True cs)
      else case digit_val c of
        Some d \<Rightarrow>
          if d < base
          then (case scan_digits base False cs of
                  None \<Rightarrow> None
                | Some (ds, rest) \<Rightarrow> Some (d # ds, rest))
          else if prev_us then None else Some ([], c # cs)
      | None \<Rightarrow> if prev_us then None else Some ([], c # cs))"

definition digits_value :: "nat \<Rightarrow> nat list \<Rightarrow> nat" where
  "digits_value base ds = foldl (\<lambda>acc d. acc * base + d) 0 ds"

text \<open>The sign, then the base with the rest behind the prefix.\<close>

fun take_sign :: "string \<Rightarrow> bool \<times> string" where
  "take_sign (c # cs) =
     (if c = CHR ''+'' then (False, cs) else if c = CHR ''-'' then (True, cs) else (False, c # cs))"
| "take_sign [] = (False, [])"

definition skip_underscore :: "string \<Rightarrow> string" where
  "skip_underscore cs = (case cs of [] \<Rightarrow> [] | c # r \<Rightarrow> if c = CHR ''_'' then r else cs)"

fun take_base :: "string \<Rightarrow> nat \<times> bool \<times> string" where
  "take_base (z # x # cs) =
     (if z \<noteq> CHR ''0'' then (10, False, z # x # cs)
      else if x = CHR ''x'' \<or> x = CHR ''X'' then (16, False, skip_underscore cs)
      else if x = CHR ''o'' \<or> x = CHR ''O'' then (8, False, skip_underscore cs)
      else if x = CHR ''b'' \<or> x = CHR ''B'' then (2, False, skip_underscore cs)
      else (10, True, z # x # cs))"
| "take_base cs = (10, cs = ''0'', cs)"

definition int_base0 :: "string \<Rightarrow> int option" where
  "int_base0 s =
     (let (neg, s2) = take_sign (dropWhile is_int_space s);
          (base, zero_only, s3) = take_base s2
      in if s3 \<noteq> [] \<and> hd s3 = CHR ''_'' then None
         else case scan_digits base False s3 of
           None \<Rightarrow> None
         | Some (ds, rest) \<Rightarrow>
             if ds = [] then None
             else if base = 10 \<and> length ds > max_str_digits then None
             else if zero_only \<and> digits_value base ds \<noteq> 0 then None
             else if dropWhile is_int_space rest \<noteq> [] then None
             else Some (if neg then - int (digits_value base ds) else int (digits_value base ds)))"

section \<open>Address translation\<close>

text \<open>
  \<open>GDBDecompilerClient.rebase_addr\<close>. The two properties it reads, \<open>is_pie\<close> and
  \<open>text_base_addr\<close>, are passed in with the values they have once they are cached:
  a Boolean, and the text segment base, which is \<open>None\<close> until a base was given or found.
  Adding anything but an integer to the address raises \<open>TypeError\<close>.
\<close>

definition rebase_addr :: "bool \<Rightarrow> pyval \<Rightarrow> int \<Rightarrow> bool \<Rightarrow> error + int" where
  "rebase_addr is_pie text_base_addr addr up =
     (if is_pie then
        (case text_base_addr of
           PyInt base \<Rightarrow> Inr (if up then addr + base else addr - base)
         | _ \<Rightarrow> Inl TypeError)
      else Inr addr)"

section \<open>Type normalisation\<close>

text \<open>\<open>GDBDecompilerClient._clean_type_str\<close>, statement by statement.\<close>

definition clean_type_str :: "string \<Rightarrow> string" where
  "clean_type_str type_str =
     (let type_str1 =
        (if str_contains type_str ''__'' then
           (let stripped = replace type_str ''__'' '''';
                idx = str_find stripped ''[''
            in if idx \<noteq> - 1 then slice_to stripped idx @ ''_t'' @ slice_from stripped idx
               else stripped @ ''_t'')
         else type_str)
      in replace type_str1 ''unsigned '' ''u'')"





section \<open>Session state\<close>

text \<open>
  What the program prints: \<open>err\<close> and \<open>info\<close> lines, plain \<open>print\<close> output, and the
  help text of the argument parser.
\<close>

datatype message = Err string | Info string | Print string | Help

text \<open>
  The fields of \<open>GDBClient\<close> and \<open>GDBDecompilerClient\<close> that the methods below read
  or write: the client's \<open>name\<close> and \<open>text_segment_base_addr\<close> (both \<open>None\<close> at
  construction), the value memoised by \<open>lru_cache\<close> for the property \<open>text_base_addr\<close>
  (absent before the first read), the flag \<open>native_sym_support\<close>, the attribute
  \<open>text_base_addr\<close> of the symbol mapper, the rest of the symbol mapper's state, and
  the lines printed so far.
\<close>

record 'm session =
  client_name :: pyval
  text_segment_base_addr :: pyval
  text_base_addr_cache :: "pyval option"
  native_sym_support :: bool
  mapper_text_base_addr :: pyval
  mapper :: 'm
  console :: "message list"

definition text_base_addr :: "'m session \<Rightarrow> pyval \<times> 'm session" where
  "text_base_addr s =
     (case text_base_addr_cache s of
        Some v \<Rightarrow> (v, s)
      | None \<Rightarrow> (text_segment_base_addr s,
                 s\<lparr>text_base_addr_cache := Some (text_segment_base_addr s)\<rparr>))"

section \<open>Symbol import\<close>

text \<open>
  The decompiler reports function headers and global variables as dictionaries keyed by
  the address, a string. A dictionary is iterated in insertion order, so each is a list
  of key and value. A symbol is the tuple of name, address, kind and size.
\<close>

record function_header =
  fh_name :: string
  fh_size :: int

record global_var =
  gv_name :: string

type_synonym symbol = "string \<times> int \<times> string \<times> int"

text \<open>
  The two loops of \<open>update_symbols\<close>, carrying \<open>syms_to_add\<close> and \<open>sym_name_set\<close>.
  \<open>int(addr, 0)\<close> raises \<open>ValueError\<close> on a key that is no integer literal; for a global
  variable it is evaluated only when the name is not skipped.
\<close>

fun add_functions ::
  "(string \<times> function_header) list \<Rightarrow> symbol list \<times> string set
     \<Rightarrow> error + symbol list \<times> string set" where
  "add_functions [] acc = Inr acc"
| "add_functions ((addr, func) # rest) (syms_to_add, sym_name_set) =
     (case int_base0 addr of
        None \<Rightarrow> Inl (ValueError addr)
      | Some a \<Rightarrow>
          add_functions rest
            (syms_to_add @ [(fh_name func, a, ''function'', fh_size func)],
             insert (fh_name func) sym_name_set))"

fun add_globals ::
  "(string \<times> global_var) list \<Rightarrow> symbol list \<times> string set
     \<Rightarrow> error + symbol list \<times> string set" where
  "add_globals [] acc = Inr acc"
| "add_globals ((addr, gv) # rest) (syms_to_add, sym_name_set) =
     (if gv_name gv \<in> sym_name_set then add_globals rest (syms_to_add, sym_name_set)
      else case int_base0 addr of
        None \<Rightarrow> Inl (ValueError addr)
      | Some a \<Rightarrow>
          add_globals rest (syms_to_add @ [(gv_name gv, a, ''object'', 8)], sym_name_set))"

definition build_syms ::
  "(string \<times> global_var) list \<Rightarrow> (string \<times> function_header) list \<Rightarrow> error + symbol list" where
  "build_syms global_vars func_headers =
     (case add_functions func_headers ([], {}) of
        Inl e \<Rightarrow> Inl e
      | Inr acc \<Rightarrow>
          (case add_globals global_vars acc of
             Inl e \<Rightarrow> Inl e
           | Inr (syms_to_add, sym_name_set) \<Rightarrow> Inr syms_to_add))"

text \<open>The entry that the first loop appends for a function header with a well-formed key.\<close>

definition func_sym :: "string \<times> function_header \<Rightarrow> symbol" where
  "func_sym e = (fh_name (snd e), the (int_base0 (fst e)), ''function'', fh_size (snd e))"

text \<open>
  \<open>GDBDecompilerClient.update_symbols\<close>. \<open>SymbolMapper.add_native_symbols\<close> is a
  collaborator: given the batch and the mapper's state it returns the new state and, when
  it raises, the text of the exception. \<open>global_vars\<close> and \<open>func_headers\<close> are what the
  transport delivers. The result pairs the return value, or the exception that leaves
  the method, with the state left behind.
\<close>

definition update_symbols ::
  "(symbol list \<Rightarrow> 'm \<Rightarrow> string option \<times> 'm)
     \<Rightarrow> (string \<times> global_var) list \<Rightarrow> (string \<times> function_header) list
     \<Rightarrow> 'm session \<Rightarrow> (error + bool) \<times> 'm session" where
  "update_symbols add_native_symbols global_vars func_headers s =
     (let (base, s1) = text_base_addr s;
          s2 = s1\<lparr>mapper_text_base_addr := base\<rparr>
      in if \<not> native_sym_support s2 then
           (Inr False,
            s2\<lparr>console := console s2 @
              [Err ''Native symbol support is required to run decomp2dbg, assure you have coreutils installed.'']\<rparr>)
         else case build_syms global_vars func_headers of
           Inl e \<Rightarrow> (Inl e, s2)
         | Inr syms_to_add \<Rightarrow>
             (case add_native_symbols syms_to_add (mapper s2) of
                (Some e, m) \<Rightarrow>
                  (Inr False,
                   s2\<lparr>mapper := m, native_sym_support := False,
                      console := console s2 @ [Err (''Failed to set symbols natively: '' @ e)]\<rparr>)
              | (None, m) \<Rightarrow> (Inr True, s2\<lparr>mapper := m\<rparr>)))"

section \<open>Variable materialisation\<close>

text \<open>
  The register and stack variables of a function, as \<open>function_data\<close> delivers them:
  register variables keyed by name, stack variables keyed by the offset, a string.
\<close>

record reg_var =
  rv_type :: string
  reg_name :: string

record stack_var =
  sv_type :: string
  sv_name :: string

text \<open>The two expressions built by \<open>update_function_data\<close>.\<close>

definition reg_expr :: "string \<Rightarrow> string \<Rightarrow> string" where
  "reg_expr type_str reg = ''(('' @ type_str @ '') ($'' @ reg @ '')''"

definition stack_expr :: "string \<Rightarrow> string \<Rightarrow> string" where
  "stack_expr type_str offset_text = ''('' @ type_str @ ''*) ($fp - '' @ offset_text @ '')''"

text \<open>The numbers of opening and of closing parentheses in a text.\<close>

definition opens :: "string \<Rightarrow> nat" where
  "opens s = count_list s (CHR ''('')"

definition closes :: "string \<Rightarrow> nat" where
  "closes s = count_list s (CHR '')'')"

text \<open>
  The debugger is a collaborator with a state of its own: \<open>gdb.parse_and_eval\<close> returns
  the printed value or raises, \<open>gdb.execute\<close> returns or raises, and both may change the
  debugger. What a variable ended as is recorded per variable: set from the typed
  expression, set from the bare location, or skipped.
\<close>

datatype binding = Typed | Untyped | Skipped

definition bind_reg_var ::
  "(string \<Rightarrow> 'g \<Rightarrow> string option \<times> 'g) \<Rightarrow> (string \<Rightarrow> 'g \<Rightarrow> bool \<times> 'g)
     \<Rightarrow> string \<times> reg_var \<Rightarrow> 'g \<Rightarrow> binding \<times> 'g" where
  "bind_reg_var parse_and_eval execute entry g =
     (let (var_name, var) = entry;
          type_str = clean_type_str (rv_type var);
          reg = reg_name var;
          expr = reg_expr type_str reg;
          (type_unknown, g2) =
            (case parse_and_eval expr g of
               (Some val, g1) \<Rightarrow>
                 (case execute (''set $'' @ var_name @ '' = '' @ val) g1 of
                    (True, g2) \<Rightarrow> (False, g2)
                  | (False, g2) \<Rightarrow> (True, g2))
             | (None, g1) \<Rightarrow> (True, g1))
      in if type_unknown then
           (case execute (''set $'' @ var_name @ '' = ($'' @ reg @ '')'') g2 of
              (True, g3) \<Rightarrow> (Untyped, g3)
            | (False, g3) \<Rightarrow> (Skipped, g3))
         else (Typed, g2))"

text \<open>
  One round of the second loop. The offset is converted and formatted into the expression
  before the first \<open>try\<close>; either step can raise \<open>ValueError\<close>, which nothing catches.
\<close>

definition bind_stack_var ::
  "(string \<Rightarrow> 'g \<Rightarrow> bool \<times> 'g) \<Rightarrow> string \<times> stack_var \<Rightarrow> 'g \<Rightarrow> (error + binding) \<times> 'g" where
  "bind_stack_var execute entry g =
     (let (offset_str, var) = entry
      in case int_base0 offset_str of
           None \<Rightarrow> (Inl (ValueError offset_str), g)
         | Some offset \<Rightarrow>
             (let type_str = clean_type_str (sv_type var)
              in case str_int offset of
                   None \<Rightarrow>
                     (Inl (ValueError ''Exceeds the limit (4300 digits) for integer string conversion''), g)
                 | Some offset_text \<Rightarrow>
                     (let expr = stack_expr type_str offset_text;
                          var_name = sv_name var
                      in case execute (''set $'' @ var_name @ '' = '' @ expr) g of
                           (True, g1) \<Rightarrow> (Inr Typed, g1)
                         | (False, g1) \<Rightarrow>
                             (case execute (''set $'' @ var_name @ '' = ($fp - '' @ offset_text @ '')'') g1 of
                                (True, g2) \<Rightarrow> (Inr Untyped, g2)
                              | (False, g2) \<Rightarrow> (Inr Skipped, g2)))))"

fun reg_vars_loop ::
  "(string \<Rightarrow> 'g \<Rightarrow> string option \<times> 'g) \<Rightarrow> (string \<Rightarrow> 'g \<Rightarrow> bool \<times> 'g)
     \<Rightarrow> (string \<times> reg_var) list \<Rightarrow> 'g \<Rightarrow> binding list \<times> 'g" where
  "reg_vars_loop parse_and_eval execute [] g = ([], g)"
| "reg_vars_loop parse_and_eval execute (entry # rest) g =
     (let (b, g1) = bind_reg_var parse_and_eval execute entry g;
          (bs, g2) = reg_vars_loop parse_and_eval execute rest g1
      in (b # bs, g2))"

fun stack_vars_loop ::
  "(string \<Rightarrow> 'g \<Rightarrow> bool \<times> 'g) \<Rightarrow> (string \<times> stack_var) list \<Rightarrow> 'g
     \<Rightarrow> (error + binding list) \<times> 'g" where
  "stack_vars_loop execute [] g = (Inr [], g)"
| "stack_vars_loop execute (entry # rest) g =
     (case bind_stack_var execute entry g of
        (Inl e, g1) \<Rightarrow> (Inl e, g1)
      | (Inr b, g1) \<Rightarrow>
          (case stack_vars_loop execute rest g1 of
             (Inl e, g2) \<Rightarrow> (Inl e, g2)
           | (Inr bs, g2) \<Rightarrow> (Inr (b # bs), g2)))"

text \<open>
  \<open>GDBDecompilerClient.update_function_data\<close>, on the register and stack variables
  that \<open>function_data(addr)\<close> returned. It gives the exception that leaves the method,
  or the bindings of all variables in the order of the two loops.
\<close>

definition update_function_data ::
  "(string \<Rightarrow> 'g \<Rightarrow> string option \<times> 'g) \<Rightarrow> (string \<Rightarrow> 'g \<Rightarrow> bool \<times> 'g)
     \<Rightarrow> (string \<times> reg_var) list \<Rightarrow> (string \<times> stack_var) list \<Rightarrow> 'g
     \<Rightarrow> (error + binding list) \<times> 'g" where
  "update_function_data parse_and_eval execute reg_vars stack_vars g =
     (let (rbs, g1) = reg_vars_loop parse_and_eval execute reg_vars g
      in case stack_vars_loop execute stack_vars g1 of
           (Inl e, g2) \<Rightarrow> (Inl e, g2)
         | (Inr sbs, g2) \<Rightarrow> (Inr (rbs @ sbs), g2))"

subsection \<open>The three ways a variable can end\<close>

text \<open>
  The specification lists, for one variable, a typed attempt, an untyped fallback, and
  a skip. The relations below say what each means in terms of the debugger's answers,
  from the state before the variable to the state after it. For a register variable the
  typed attempt fails when the evaluation raises or when the \<open>set\<close> command on the
  printed value raises; a variable ends typed when the typed \<open>set\<close> was accepted (no
  other command is then issued for it), untyped when the typed attempt failed and the
  \<open>set\<close> on the bare location was accepted, skipped when both were refused. So at most
  one \<open>set\<close> command is accepted per variable.
\<close>

inductive typed_reg_fails ::
  "(string \<Rightarrow> 'g \<Rightarrow> string option \<times> 'g) \<Rightarrow> (string \<Rightarrow> 'g \<Rightarrow> bool \<times> 'g)
     \<Rightarrow> string \<times> reg_var \<Rightarrow> 'g \<Rightarrow> 'g \<Rightarrow> bool"
  for parse_and_eval execute where
  eval_raises:
    "parse_and_eval (reg_expr (clean_type_str (rv_type var)) (reg_name var)) g = (None, g2)
     \<Longrightarrow> typed_reg_fails parse_and_eval execute (var_name, var) g g2"
| set_raises:
    "parse_and_eval (reg_expr (clean_type_str (rv_type var)) (reg_name var)) g = (Some val, g1)
     \<Longrightarrow> execute (''set $'' @ var_name @ '' = '' @ val) g1 = (False, g2)
     \<Longrightarrow> typed_reg_fails parse_and_eval execute (var_name, var) g g2"

inductive reg_var_ends ::
  "(string \<Rightarrow> 'g \<Rightarrow> string option \<times> 'g) \<Rightarrow> (string \<Rightarrow> 'g \<Rightarrow> bool \<times> 'g)
     \<Rightarrow> string \<times> reg_var \<Rightarrow> 'g \<Rightarrow> binding \<Rightarrow> 'g \<Rightarrow> bool"
  for parse_and_eval execute where
  reg_typed:
    "parse_and_eval (reg_expr (clean_type_str (rv_type var)) (reg_name var)) g = (Some val, g1)
     \<Longrightarrow> execute (''set $'' @ var_name @ '' = '' @ val) g1 = (True, g')
     \<Longrightarrow> reg_var_ends parse_and_eval execute (var_name, var) g Typed g'"
| reg_untyped:
    "typed_reg_fails parse_and_eval execute (var_name, var) g g2
     \<Longrightarrow> execute (''set $'' @ var_name @ '' = ($'' @ reg_name var @ '')'') g2 = (True, g')
     \<Longrightarrow> reg_var_ends parse_and_eval execute (var_name, var) g Untyped g'"
| reg_skipped:
    "typed_reg_fails parse_and_eval execute (var_name, var) g g2
     \<Longrightarrow> execute (''set $'' @ var_name @ '' = ($'' @ reg_name var @ '')'') g2 = (False, g')
     \<Longrightarrow> reg_var_ends parse_and_eval execute (var_name, var) g Skipped g'"

text \<open>
  For a stack variable the offset is an integer literal with a decimal text; the typed
  command sets the variable from the pointer expression, the untyped one from the bare
  frame address.
\<close>

inductive stack_var_ends ::
  "(string \<Rightarrow> 'g \<Rightarrow> bool \<times> 'g) \<Rightarrow> string \<times> stack_var \<Rightarrow> 'g \<Rightarrow> binding \<Rightarrow> 'g \<Rightarrow> bool"
  for execute where
  stack_typed:
    "int_base0 offset_str = Some offset \<Longrightarrow> str_int offset = Some offset_text
     \<Longrightarrow> execute (''set $'' @ sv_name var @ '' = '' @
            stack_expr (clean_type_str (sv_type var)) offset_text) g = (True, g')
     \<Longrightarrow> stack_var_ends execute (offset_str, var) g Typed g'"
| stack_untyped:
    "int_base0 offset_str = Some offset \<Longrightarrow> str_int offset = Some offset_text
     \<Longrightarrow> execute (''set $'' @ sv_name var @ '' = '' @
            stack_expr (clean_type_str (sv_type var)) offset_text) g = (False, g1)
     \<Longrightarrow> execute (''set $'' @ sv_name var @ '' = ($fp - '' @ offset_text @ '')'') g1 = (True, g')
     \<Longrightarrow> stack_var_ends execute (offset_str, var) g Untyped g'"
| stack_skipped:
    "int_base0 offset_str = Some offset \<Longrightarrow> str_int offset = Some offset_text
     \<Longrightarrow> execute (''set $'' @ sv_name var @ '' = '' @
            stack_expr (clean_type_str (sv_type var)) offset_text) g = (False, g1)
     \<Longrightarrow> execute (''set $'' @ sv_name var @ '' = ($fp - '' @ offset_text @ '')'') g1 = (False, g')
     \<Longrightarrow> stack_var_ends execute (offset_str, var) g Skipped g'"

text \<open>
  A pass over a list of variables: every variable ends in one of its ways, starting from
  the debugger state in which the one before it ended.
\<close>

inductive vars_end ::
  "('e \<Rightarrow> 'g \<Rightarrow> binding \<Rightarrow> 'g \<Rightarrow> bool) \<Rightarrow> 'e list \<Rightarrow> 'g \<Rightarrow> binding list \<Rightarrow> 'g \<Rightarrow> bool"
  for ends where
  no_vars: "vars_end ends [] g [] g"
| next_var: "ends e g b g1 \<Longrightarrow> vars_end ends es g1 bs g' \<Longrightarrow> vars_end ends (e # es) g (b # bs) g'"

text \<open>
  A stack offset that the pass can convert and format: an integer literal whose value has
  a decimal text within the limit.
\<close>

definition valid_offset :: "string \<Rightarrow> bool" where
  "valid_offset offset_str =
     (case int_base0 offset_str of None \<Rightarrow> False | Some offset \<Rightarrow> str_int offset \<noteq> None)"

section \<open>Command interface\<close>

text \<open>
  \<open>DecompilerCommand._init_arg_parser\<close> declares two positional arguments, \<open>command\<close>
  (one of three choices) and \<open>decompiler_name\<close>, and three options, \<open>--host\<close>,
  \<open>--port\<close> (an integer) and \<open>--base-addr\<close> (an integer, absent by default). The
  namespace a successful parse returns has one attribute for each of them and no other.
\<close>

definition commands :: "string list" where
  "commands = [''connect'', ''disconnect'', ''info'']"

definition namespace ::
  "string \<Rightarrow> string \<Rightarrow> string \<Rightarrow> int \<Rightarrow> int option \<Rightarrow> (string \<times> pyval) list" where
  "namespace command decompiler_name host port base_addr =
     [(''command'', PyStr command),
      (''decompiler_name'', PyStr decompiler_name),
      (''host'', PyStr host),
      (''port'', PyInt port),
      (''base_addr'', case base_addr of None \<Rightarrow> PyNone | Some b \<Rightarrow> PyInt b)]"

text \<open>Reading an attribute that the object does not have raises \<open>AttributeError\<close>.\<close>

definition getattr :: "(string \<times> pyval) list \<Rightarrow> string \<Rightarrow> error + pyval" where
  "getattr obj attr =
     (case map_of obj attr of None \<Rightarrow> Inl (AttributeError attr) | Some v \<Rightarrow> Inr v)"

text \<open>
  The parsing algorithm itself belongs to the standard library and is a parameter of
  \<open>invoke\<close>: on a list of words it returns the five values, raises an exception derived
  from \<open>Exception\<close> (with its text), or raises \<open>SystemExit\<close>, which is not derived
  from \<open>Exception\<close>.
\<close>

datatype parse_result =
    Parsed string string string int "int option"
  | Raises_Exception string
  | Raises_SystemExit

text \<open>
  \<open>DecompilerCommand._handle_connect\<close>. \<open>connect\<close> is the transport's method: it
  answers whether the link is up and may change the session (it calls back into the
  client on success).
\<close>

definition handle_connect ::
  "(pyval \<Rightarrow> pyval \<Rightarrow> pyval \<Rightarrow> 'm session \<Rightarrow> bool \<times> 'm session)
     \<Rightarrow> (string \<times> pyval) list \<Rightarrow> 'm session \<Rightarrow> (error + unit) \<times> 'm session" where
  "handle_connect connect args s =
     (case getattr args ''decompiler_name'' of
        Inl e \<Rightarrow> (Inl e, s)
      | Inr decompiler_name \<Rightarrow>
          if \<not> truthy decompiler_name then
            (Inr (), s\<lparr>console := console s @
               [Err ''You must provide a decompiler name when using this command!'']\<rparr>)
          else
            (case getattr args ''base_addr'' of
               Inl e \<Rightarrow> (Inl e, s)
             | Inr base_addr \<Rightarrow>
                 (let s1 = s\<lparr>text_segment_base_addr := base_addr\<rparr>;
                      s2 = s1\<lparr>client_name := decompiler_name\<rparr>
                  in case getattr args ''host'' of
                       Inl e \<Rightarrow> (Inl e, s2)
                     | Inr host \<Rightarrow>
                         (case getattr args ''port'' of
                            Inl e \<Rightarrow> (Inl e, s2)
                          | Inr port \<Rightarrow>
                              (let (connected, s3) = connect decompiler_name host port s2
                               in if \<not> connected then
                                    (Inr (), s3\<lparr>console := console s3 @
                                       [Err ''Failed to connect to decompiler!'']\<rparr>)
                                  else
                                    (Inr (), s3\<lparr>console := console s3 @
                                       [Info ''Connected to decompiler!'']\<rparr>))))))"

text \<open>
  \<open>DecompilerCommand._handle_disconnect\<close>. It reads the attribute \<open>name\<close> of the
  namespace. \<open>disconnect\<close> is the transport's method.
\<close>

definition handle_disconnect ::
  "('m session \<Rightarrow> 'm session) \<Rightarrow> (string \<times> pyval) list \<Rightarrow> 'm session
     \<Rightarrow> (error + unit) \<times> 'm session" where
  "handle_disconnect disconnect args s =
     (case getattr args ''name'' of
        Inl e \<Rightarrow> (Inl e, s)
      | Inr n \<Rightarrow>
          if \<not> truthy n then
            (Inr (), s\<lparr>console := console s @
               [Err ''You must provide a decompiler name when using this command!'']\<rparr>)
          else
            (let s1 = disconnect s
             in (Inr (), s1\<lparr>console := console s1 @ [Info ''Disconnected decompiler!'']\<rparr>)))"

text \<open>
  \<open>DecompilerCommand._handle_info\<close> prints the name and the base address, the latter
  in hexadecimal when it is an integer; the text is the dedented template. The heading
  is printed before the template is formatted.
\<close>

definition handle_info :: "(string \<times> pyval) list \<Rightarrow> 'm session \<Rightarrow> (error + unit) \<times> 'm session" where
  "handle_info args s =
     (let s1 = s\<lparr>console := console s @ [Info ''Decompiler Info:'']\<rparr>
      in case py_str (client_name s1) of
           Inl e \<Rightarrow> (Inl e, s1)
         | Inr name_text \<Rightarrow>
             (case (case text_segment_base_addr s1 of PyInt b \<Rightarrow> Inr (hex b) | v \<Rightarrow> py_str v) of
                Inl e \<Rightarrow> (Inl e, s1)
              | Inr base_text \<Rightarrow>
                  (Inr (),
                   s1\<lparr>console := console s1 @
                     [Print (''Name: '' @ name_text @ [CHR 0x0A] @ ''Base Addr: '' @ base_text @
                             [CHR 0x0A])]\<rparr>)))"

text \<open>
  \<open>DecompilerCommand._handle_cmd\<close> looks the handler up by the name
  \<open>_handle_\<close> followed by the command. The object has four methods of such a name; the
  fourth is \<open>_handle_cmd\<close> itself, which would call itself without end.
\<close>

definition handle_cmd ::
  "(pyval \<Rightarrow> pyval \<Rightarrow> pyval \<Rightarrow> 'm session \<Rightarrow> bool \<times> 'm session) \<Rightarrow> ('m session \<Rightarrow> 'm session)
     \<Rightarrow> (string \<times> pyval) list \<Rightarrow> 'm session \<Rightarrow> (error + unit) \<times> 'm session" where
  "handle_cmd connect disconnect args s =
     (case getattr args ''command'' of
        Inl e \<Rightarrow> (Inl e, s)
      | Inr cmd \<Rightarrow>
          (case py_str cmd of
             Inl e \<Rightarrow> (Inl e, s)
           | Inr cmd_text \<Rightarrow>
               (let handler_str = ''_handle_'' @ cmd_text
                in if handler_str = ''_handle_connect'' then handle_connect connect args s
                   else if handler_str = ''_handle_disconnect'' then
                     handle_disconnect disconnect args s
                   else if handler_str = ''_handle_info'' then handle_info args s
                   else if handler_str = ''_handle_cmd'' then (Inl RecursionError, s)
                   else (Inl (AttributeError handler_str), s))))"

text \<open>
  The body of \<open>DecompilerCommand.invoke\<close>. Only exceptions derived from \<open>Exception\<close>
  are caught around the parse; the handler runs outside the \<open>try\<close>.
\<close>

definition invoke ::
  "(string list \<Rightarrow> parse_result)
     \<Rightarrow> (pyval \<Rightarrow> pyval \<Rightarrow> pyval \<Rightarrow> 'm session \<Rightarrow> bool \<times> 'm session) \<Rightarrow> ('m session \<Rightarrow> 'm session)
     \<Rightarrow> string \<Rightarrow> 'm session \<Rightarrow> (error + unit) \<times> 'm session" where
  "invoke parse_args connect disconnect arg s =
     (let raw_args = split arg
      in case parse_args raw_args of
           Raises_Exception e \<Rightarrow>
             (Inr (), s\<lparr>console := console s @ [Err (''Error parsing args: '' @ e), Help]\<rparr>)
         | Raises_SystemExit \<Rightarrow> (Inl SystemExit, s)
         | Parsed command decompiler_name host port base_addr \<Rightarrow>
             handle_cmd connect disconnect
               (namespace command decompiler_name host port base_addr) s)"

section \<open>Sample collaborators\<close>

text \<open>
  Concrete collaborators on which the model is run: a symbol mapper that records the
  batches it is given and one that raises; a debugger that keeps the list of commands it
  accepted and rejects any text whose parentheses do not pair up in number; a transport
  that refuses the connection and leaves the session alone; and the session as it is
  right after construction. The sample parser answers as the configured parser does
  (library of Python 3.11) on lists of words none of which begins with a hyphen: a first
  word outside the choices raises \<open>ArgumentError\<close> with the text given, for a word
  without quotes or backslashes; a choice followed by exactly one word parses, with the
  defaults of the options; no word, a choice alone, or words beyond the second make the
  parser exit, although it was built with \<open>exit_on_error=False\<close>. On lists with a word
  beginning with a hyphen it is not a description of the parser.
\<close>

definition recording_mapper :: "symbol list \<Rightarrow> symbol list list \<Rightarrow> string option \<times> symbol list list" where
  "recording_mapper syms m = (None, m @ [syms])"

definition raising_mapper :: "symbol list \<Rightarrow> symbol list list \<Rightarrow> string option \<times> symbol list list" where
  "raising_mapper syms m = (Some ''objcopy failed'', m)"

definition sample_parse_and_eval :: "string \<Rightarrow> string list \<Rightarrow> string option \<times> string list" where
  "sample_parse_and_eval expr g = (if opens expr = closes expr then Some ''0'' else None, g)"

definition sample_execute :: "string \<Rightarrow> string list \<Rightarrow> bool \<times> string list" where
  "sample_execute cmd g = (if opens cmd = closes cmd then (True, g @ [cmd]) else (False, g))"

definition refusing_connect ::
  "pyval \<Rightarrow> pyval \<Rightarrow> pyval \<Rightarrow> symbol list list session \<Rightarrow> bool \<times> symbol list list session" where
  "refusing_connect n h p s = (False, s)"

definition choice_parser :: "string list \<Rightarrow> parse_result" where
  "choice_parser raw_args =
     (case raw_args of
        [] \<Rightarrow> Raises_SystemExit
      | c # rest \<Rightarrow>
          if c = [] \<or> hd c = CHR ''-'' then Raises_SystemExit
          else if c \<notin> set commands then
            Raises_Exception
              (''argument command: invalid choice: '' @ [CHR 0x27] @ c @ [CHR 0x27] @
               '' (choose from '' @ [CHR 0x27] @ ''connect'' @ [CHR 0x27] @ '', '' @
               [CHR 0x27] @ ''disconnect'' @ [CHR 0x27] @ '', '' @
               [CHR 0x27] @ ''info'' @ [CHR 0x27] @ '')'')
          else (case rest of
                  [n] \<Rightarrow> if n = [] \<or> hd n = CHR ''-'' then Raises_SystemExit
                         else Parsed c n ''localhost'' 3662 None
                | _ \<Rightarrow> Raises_SystemExit))"

definition fresh_session :: "symbol list list session" where
  "fresh_session =
     \<lparr>client_name = PyNone, text_segment_base_addr = PyNone, text_base_addr_cache = None,
      native_sym_support = True, mapper_text_base_addr = PyNone, mapper = [], console = []\<rparr>"

section \<open>Properties\<close>

subsection \<open>Address translation\<close>

text \<open>
  C1. With the addressing mode and a text base fixed, rebasing any address up to the
  runtime space and the result back down returns the address; for a target that is not
  position independent the function returns its argument in either direction, whatever
  the base.
\<close>

theorem rebase_addr_round_trip:
  "(\<exists>r. rebase_addr is_pie (PyInt base) a True = Inr r
        \<and> rebase_addr is_pie (PyInt base) r False = Inr a)
   \<and> rebase_addr False any_base a up = Inr a"
  by (simp add: rebase_addr_def)

declare replace.simps [simp del]

lemma replace_Nil: "old \<noteq> [] \<Longrightarrow> replace [] old new = []"
  by (subst replace.simps) simp

lemma replace_Cons:
  "old \<noteq> [] \<Longrightarrow> replace (c # cs) old new =
     (if prefix old (c # cs) then new @ replace (drop (length old) (c # cs)) old new
      else c # replace cs old new)"
  by (subst replace.simps) simp

subsection \<open>Type normalisation\<close>










subsection \<open>The register expression\<close>

lemma count_list_drop_prefix:
  "prefix old s \<Longrightarrow> c \<notin> set old \<Longrightarrow> count_list (drop (length old) s) c = count_list s c"
  by (auto simp: prefix_def)

lemma count_list_replace:
  "old \<noteq> [] \<Longrightarrow> c \<notin> set old \<Longrightarrow> c \<notin> set new
     \<Longrightarrow> count_list (replace s old new) c = count_list s c"
proof (induction s old new rule: replace.induct)
  case (1 s old new)
  show ?case
  proof (cases s)
    case Nil
    with 1 show ?thesis by (simp add: replace_Nil)
  next
    case (Cons x xs)
    show ?thesis
    proof (cases "prefix old s")
      case True
      with 1 Cons have "count_list (replace (drop (length old) s) old new) c
          = count_list (drop (length old) s) c"
        by simp
      with True 1 Cons show ?thesis
        by (simp add: replace_Cons count_list_drop_prefix count_list_0_iff)
    next
      case False
      with 1 Cons have "count_list (replace (tl s) old new) c = count_list (tl s) c"
        by simp
      with False 1 Cons show ?thesis
        by (simp add: replace_Cons)
    qed
  qed
qed

lemma count_list_slices:
  "count_list (slice_to s i @ m @ slice_from s i) c = count_list s c + count_list m c"
proof -
  have "count_list (take n s) c + count_list (drop n s) c = count_list s c" for n
    by (metis append_take_drop_id count_list_append)
  then show ?thesis
    by (auto simp: slice_to_def slice_from_def)
qed

lemma count_list_clean_type_str:
  assumes "c \<notin> set ''_t[unsigned ''"
  shows "count_list (clean_type_str t) c = count_list t c"
proof -
  have r1: "count_list (replace x ''__'' []) c = count_list x c" for x
    by (rule count_list_replace) (use assms in auto)
  have r2: "count_list (replace x ''unsigned '' ''u'') c = count_list x c" for x
    by (rule count_list_replace) (use assms in auto)
  have t: "count_list ''_t'' c = 0"
    using assms by auto
  define stripped where "stripped = replace t ''__'' []"
  define idx where "idx = str_find stripped ''[''"
  have A: "count_list (slice_to stripped idx @ ''_t'' @ slice_from stripped idx) c = count_list t c"
    unfolding count_list_slices stripped_def r1 t by simp
  have B: "count_list (stripped @ ''_t'') c = count_list t c"
    unfolding count_list_append stripped_def r1 t by simp
  have "count_list (if str_contains t ''__'' then
           (if idx \<noteq> - 1 then slice_to stripped idx @ ''_t'' @ slice_from stripped idx
               else stripped @ ''_t'')
         else t) c = count_list t c"
    using A B by (simp only: split: if_split) blast
  then show ?thesis
    unfolding clean_type_str_def Let_def r2 stripped_def idx_def .
qed

lemma reg_expr_parens:
  "opens (reg_expr (clean_type_str t) r) + closes t + closes r
     = closes (reg_expr (clean_type_str t) r) + opens t + opens r + 1"
  by (simp add: opens_def closes_def reg_expr_def count_list_clean_type_str)

text \<open>
  C10, as amended. The expression built for a register variable has exactly one more
  opening than closing parenthesis whenever the type string and the register name
  together hold as many opening as closing ones, in particular when they hold none.
  The normaliser does not touch parentheses, so the raw type string is what counts.
\<close>

theorem reg_expr_unbalanced:
  "opens t + opens r = closes t + closes r \<Longrightarrow>
   opens (reg_expr (clean_type_str t) r) = closes (reg_expr (clean_type_str t) r) + 1"
  using reg_expr_parens [of t r] by simp

theorem reg_expr_unbalanced_witness:
  "opens ''__int64'' + opens ''rax'' = closes ''__int64'' + closes ''rax'' \<and>
   opens (reg_expr (clean_type_str ''__int64'') ''rax'')
     = closes (reg_expr (clean_type_str ''__int64'') ''rax'') + 1"
proof -
  have h: "opens ''__int64'' + opens ''rax'' = closes ''__int64'' + closes ''rax''"
    by (simp add: opens_def closes_def)
  from reg_expr_unbalanced [OF h] h show ?thesis by simp
qed

text \<open>
  As first stated, for every type string, C10 fails: a type string with a stray closing
  parenthesis gives an expression with three of each.
\<close>

theorem reg_expr_counterexample:
  "opens (reg_expr (clean_type_str ''int)'') ''rax'')
     = closes (reg_expr (clean_type_str ''int)'') ''rax'')"
  by code_simp

subsection \<open>Symbol import\<close>

lemma add_functions_named:
  "add_functions fhs (syms, names) = Inr (syms', names') \<Longrightarrow>
     names' = names \<union> (\<lambda>e. fh_name (snd e)) ` set fhs \<and>
     filter (\<lambda>y. fst y = n) syms' =
       filter (\<lambda>y. fst y = n) syms @ map func_sym (filter (\<lambda>e. fh_name (snd e) = n) fhs)"
proof (induction fhs arbitrary: syms names)
  case Nil
  then show ?case by simp
next
  case (Cons e fhs)
  obtain addr func where e: "e = (addr, func)" by (cases e)
  from Cons.prems e obtain a where a: "int_base0 addr = Some a"
    and rest: "add_functions fhs (syms @ [(fh_name func, a, ''function'', fh_size func)],
                 insert (fh_name func) names) = Inr (syms', names')"
    by (auto split: option.splits)
  from Cons.IH [OF rest] e a show ?case
    by (auto simp: func_sym_def)
qed

lemma add_globals_named:
  "add_globals gvs (syms, names) = Inr (syms', names') \<Longrightarrow> n \<in> names \<Longrightarrow>
     filter (\<lambda>y. fst y = n) syms' = filter (\<lambda>y. fst y = n) syms"
proof (induction gvs arbitrary: syms)
  case Nil
  then show ?case by simp
next
  case (Cons e gvs)
  obtain addr gv where e: "e = (addr, gv)" by (cases e)
  show ?case
  proof (cases "gv_name gv \<in> names")
    case True
    with Cons.prems e have "add_globals gvs (syms, names) = Inr (syms', names')" by simp
    from Cons.IH [OF this Cons.prems(2)] show ?thesis .
  next
    case False
    with Cons.prems e obtain a where
      rest: "add_globals gvs (syms @ [(gv_name gv, a, ''object'', 8)], names) = Inr (syms', names')"
      by (auto split: option.splits)
    from False Cons.prems(2) have "gv_name gv \<noteq> n" by auto
    with Cons.IH [OF rest Cons.prems(2)] show ?thesis by simp
  qed
qed

lemma add_functions_total:
  "list_all (\<lambda>e. int_base0 (fst e) \<noteq> None) fhs \<Longrightarrow> \<exists>acc'. add_functions fhs acc = Inr acc'"
proof (induction fhs arbitrary: acc)
  case Nil
  then show ?case by simp
next
  case (Cons e fhs)
  obtain addr func where e: "e = (addr, func)" by (cases e)
  obtain syms names where acc: "acc = (syms, names)" by (cases acc)
  from Cons.prems e obtain a where a: "int_base0 addr = Some a" by auto
  from Cons.prems have "list_all (\<lambda>e. int_base0 (fst e) \<noteq> None) fhs" by simp
  from Cons.IH [OF this] e acc a show ?case by simp
qed

lemma add_globals_total:
  "list_all (\<lambda>e. int_base0 (fst e) \<noteq> None) gvs \<Longrightarrow> \<exists>acc'. add_globals gvs acc = Inr acc'"
proof (induction gvs arbitrary: acc)
  case Nil
  then show ?case by simp
next
  case (Cons e gvs)
  obtain addr gv where e: "e = (addr, gv)" by (cases e)
  obtain syms names where acc: "acc = (syms, names)" by (cases acc)
  from Cons.prems e obtain a where a: "int_base0 addr = Some a" by auto
  from Cons.prems have "list_all (\<lambda>e. int_base0 (fst e) \<noteq> None) gvs" by simp
  from Cons.IH [OF this] e acc a show ?case by simp
qed

text \<open>
  C3, as amended. Let every key of the two maps be an integer literal and let exactly one
  function header carry the name \<open>n\<close>, which some global variable carries too. Then
  the list handed to the native registration holds exactly one entry named \<open>n\<close>: the
  one of kind function with the function's address and size. The global variable of that
  name is left out.
\<close>

theorem function_wins_over_global:
  assumes fparse: "list_all (\<lambda>e. int_base0 (fst e) \<noteq> None) func_headers"
    and gparse: "list_all (\<lambda>e. int_base0 (fst e) \<noteq> None) global_vars"
    and unique: "filter (\<lambda>e. fh_name (snd e) = n) func_headers = [(addr, func)]"
    and global: "(gaddr, gv) \<in> set global_vars" "gv_name gv = n"
  shows "\<exists>syms a. build_syms global_vars func_headers = Inr syms
           \<and> int_base0 addr = Some a
           \<and> filter (\<lambda>sym. fst sym = n) syms = [(n, a, ''function'', fh_size func)]"
proof -
  from add_functions_total [OF fparse] obtain syms1 names1
    where f: "add_functions func_headers ([], {}) = Inr (syms1, names1)" by fastforce
  from add_globals_total [OF gparse] obtain syms2 names2
    where g: "add_globals global_vars (syms1, names1) = Inr (syms2, names2)" by fastforce
  have mem: "(addr, func) \<in> set (filter (\<lambda>e. fh_name (snd e) = n) func_headers)"
    unfolding unique by simp
  then have in_fh: "(addr, func) \<in> set func_headers" and nm: "fh_name func = n" by auto
  from fparse in_fh obtain a where a: "int_base0 addr = Some a"
    by (auto simp: list_all_iff)
  from add_functions_named [OF f, of n] unique
  have names: "names1 = (\<lambda>e. fh_name (snd e)) ` set func_headers"
    and named: "filter (\<lambda>y. fst y = n) syms1 = [func_sym (addr, func)]"
    by simp_all
  from names in_fh nm have "n \<in> names1" by force
  from add_globals_named [OF g this] named
  have "filter (\<lambda>y. fst y = n) syms2 = [func_sym (addr, func)]" by simp
  with a nm have "filter (\<lambda>sym. fst sym = n) syms2 = [(n, a, ''function'', fh_size func)]"
    by (simp add: func_sym_def)
  moreover from f g have "build_syms global_vars func_headers = Inr syms2"
    by (simp add: build_syms_def)
  ultimately show ?thesis using a by blast
qed

lemma int_base0_0x1000: "int_base0 ''0x1000'' = Some 4096"
  by code_simp

lemma int_base0_0x2000: "int_base0 ''0x2000'' = Some 8192"
  by code_simp

theorem function_wins_over_global_witness:
  "list_all (\<lambda>e. int_base0 (fst e) \<noteq> None) [(''0x1000'', \<lparr>fh_name = ''foo'', fh_size = 16\<rparr>)]
   \<and> list_all (\<lambda>e. int_base0 (fst e) \<noteq> None) [(''0x2000'', \<lparr>gv_name = ''foo''\<rparr>)]
   \<and> filter (\<lambda>e. fh_name (snd e) = ''foo'') [(''0x1000'', \<lparr>fh_name = ''foo'', fh_size = 16\<rparr>)]
        = [(''0x1000'', \<lparr>fh_name = ''foo'', fh_size = 16\<rparr>)]
   \<and> (''0x2000'', \<lparr>gv_name = ''foo''\<rparr>) \<in> set [(''0x2000'', \<lparr>gv_name = ''foo''\<rparr>)]
   \<and> (\<exists>syms a. build_syms [(''0x2000'', \<lparr>gv_name = ''foo''\<rparr>)]
                    [(''0x1000'', \<lparr>fh_name = ''foo'', fh_size = 16\<rparr>)] = Inr syms
           \<and> int_base0 ''0x1000'' = Some a
           \<and> filter (\<lambda>sym. fst sym = ''foo'') syms = [(''foo'', a, ''function'', 16)])"
proof -
  have h1: "list_all (\<lambda>e. int_base0 (fst e) \<noteq> None) [(''0x1000'', \<lparr>fh_name = ''foo'', fh_size = 16\<rparr>)]"
    by (simp add: int_base0_0x1000)
  have h2: "list_all (\<lambda>e. int_base0 (fst e) \<noteq> None) [(''0x2000'', \<lparr>gv_name = ''foo''\<rparr>)]"
    by (simp add: int_base0_0x2000)
  have h3: "filter (\<lambda>e. fh_name (snd e) = ''foo'') [(''0x1000'', \<lparr>fh_name = ''foo'', fh_size = 16\<rparr>)]
        = [(''0x1000'', \<lparr>fh_name = ''foo'', fh_size = 16\<rparr>)]"
    by simp
  have h4: "(''0x2000'', \<lparr>gv_name = ''foo''\<rparr>) \<in> set [(''0x2000'', \<lparr>gv_name = ''foo''\<rparr>)]"
    by simp
  have h5: "gv_name \<lparr>gv_name = ''foo''\<rparr> = ''foo''" by simp
  from function_wins_over_global [OF h1 h2 h3 h4 h5] h1 h2 h3 h4 show ?thesis by simp
qed

text \<open>
  As first stated, for all maps, C3 fails: the keys are addresses, so two function headers
  may carry one name, and both are entered.
\<close>

theorem two_functions_counterexample:
  "build_syms [(''0x2000'', \<lparr>gv_name = ''foo''\<rparr>)]
     [(''0x1000'', \<lparr>fh_name = ''foo'', fh_size = 16\<rparr>), (''0x3000'', \<lparr>fh_name = ''foo'', fh_size = 4\<rparr>)]
   = Inr [(''foo'', 4096, ''function'', 16), (''foo'', 12288, ''function'', 4)]"
  by code_simp

lemma text_base_addr_keeps:
  "native_sym_support (snd (text_base_addr s)) = native_sym_support s"
  "mapper (snd (text_base_addr s)) = mapper s"
  "console (snd (text_base_addr s)) = console s"
  by (simp_all add: text_base_addr_def split: option.splits)

text \<open>
  C5. Without native symbol support \<open>update_symbols\<close> returns \<open>False\<close>, prints the
  error, and leaves the symbol mapper as it was, whatever the registration function is:
  no batch is handed over.
\<close>

theorem update_symbols_without_support:
  assumes "\<not> native_sym_support s"
  shows "update_symbols add_native_symbols global_vars func_headers s =
           (Inr False,
            (snd (text_base_addr s))\<lparr>mapper_text_base_addr := fst (text_base_addr s),
               console := console s @
                 [Err ''Native symbol support is required to run decomp2dbg, assure you have coreutils installed.'']\<rparr>)
         \<and> mapper (snd (update_symbols add_native_symbols global_vars func_headers s)) = mapper s"
  using assms
  by (simp add: update_symbols_def text_base_addr_keeps Let_def case_prod_beta)

theorem update_symbols_without_support_witness:
  "\<not> native_sym_support (fresh_session\<lparr>native_sym_support := False\<rparr>)
   \<and> fst (update_symbols recording_mapper [(''0x2000'', \<lparr>gv_name = ''counter''\<rparr>)]
        [(''0x1000'', \<lparr>fh_name = ''main'', fh_size = 16\<rparr>)]
        (fresh_session\<lparr>native_sym_support := False\<rparr>)) = Inr False
   \<and> mapper (snd (update_symbols recording_mapper [(''0x2000'', \<lparr>gv_name = ''counter''\<rparr>)]
        [(''0x1000'', \<lparr>fh_name = ''main'', fh_size = 16\<rparr>)]
        (fresh_session\<lparr>native_sym_support := False\<rparr>))) = []"
proof -
  have h: "\<not> native_sym_support (fresh_session\<lparr>native_sym_support := False\<rparr>)" by simp
  from update_symbols_without_support [OF h, where add_native_symbols = recording_mapper
      and global_vars = "[(''0x2000'', \<lparr>gv_name = ''counter''\<rparr>)]"
      and func_headers = "[(''0x1000'', \<lparr>fh_name = ''main'', fh_size = 16\<rparr>)]"]
  show ?thesis by (simp add: fresh_session_def text_base_addr_def)
qed

text \<open>
  C6. When the registration function raises on the batch, \<open>update_symbols\<close> prints the
  exception, clears \<open>native_sym_support\<close> and returns \<open>False\<close>; any later call of
  \<open>update_symbols\<close> returns \<open>False\<close> again and leaves the flag cleared.
\<close>

theorem update_symbols_downgrades:
  assumes sup: "native_sym_support s"
    and built: "build_syms global_vars func_headers = Inr syms"
    and raised: "add_native_symbols syms (mapper s) = (Some e, m)"
  shows "update_symbols add_native_symbols global_vars func_headers s =
           (Inr False,
            (snd (text_base_addr s))\<lparr>mapper_text_base_addr := fst (text_base_addr s),
               mapper := m, native_sym_support := False,
               console := console s @ [Err (''Failed to set symbols natively: '' @ e)]\<rparr>)
         \<and> fst (update_symbols add_later globals_later funcs_later
                  (snd (update_symbols add_native_symbols global_vars func_headers s))) = Inr False
         \<and> \<not> native_sym_support
               (snd (update_symbols add_later globals_later funcs_later
                  (snd (update_symbols add_native_symbols global_vars func_headers s))))"
proof -
  let ?s' = "(snd (text_base_addr s))\<lparr>mapper_text_base_addr := fst (text_base_addr s),
               mapper := m, native_sym_support := False,
               console := console s @ [Err (''Failed to set symbols natively: '' @ e)]\<rparr>"
  have first: "update_symbols add_native_symbols global_vars func_headers s = (Inr False, ?s')"
    using sup built raised
    by (simp add: update_symbols_def text_base_addr_keeps Let_def case_prod_beta)
  have off: "\<not> native_sym_support ?s'" by simp
  have later: "fst (update_symbols add_later globals_later funcs_later ?s') = Inr False"
    "\<not> native_sym_support (snd (update_symbols add_later globals_later funcs_later ?s'))"
    using off
    by (simp_all add: update_symbols_def text_base_addr_keeps Let_def case_prod_beta)
  from first later show ?thesis by simp
qed

lemma build_syms_main_counter: "build_syms [(''0x2000'', \<lparr>gv_name = ''counter''\<rparr>)]
        [(''0x1000'', \<lparr>fh_name = ''main'', fh_size = 16\<rparr>)] = Inr [(''main'', 4096, ''function'', 16), (''counter'', 8192, ''object'', 8)]"
  by code_simp

theorem update_symbols_downgrades_witness:
  "native_sym_support fresh_session
   \<and> build_syms [(''0x2000'', \<lparr>gv_name = ''counter''\<rparr>)]
        [(''0x1000'', \<lparr>fh_name = ''main'', fh_size = 16\<rparr>)]
       = Inr [(''main'', 4096, ''function'', 16), (''counter'', 8192, ''object'', 8)]
   \<and> raising_mapper [(''main'', 4096, ''function'', 16), (''counter'', 8192, ''object'', 8)]
        (mapper fresh_session) = (Some ''objcopy failed'', [])
   \<and> update_symbols raising_mapper [(''0x2000'', \<lparr>gv_name = ''counter''\<rparr>)]
        [(''0x1000'', \<lparr>fh_name = ''main'', fh_size = 16\<rparr>)] fresh_session
      = (Inr False,
         fresh_session\<lparr>text_base_addr_cache := Some PyNone, native_sym_support := False,
           console := [Err ''Failed to set symbols natively: objcopy failed'']\<rparr>)
   \<and> fst (update_symbols recording_mapper [] []
        (snd (update_symbols raising_mapper [(''0x2000'', \<lparr>gv_name = ''counter''\<rparr>)]
           [(''0x1000'', \<lparr>fh_name = ''main'', fh_size = 16\<rparr>)] fresh_session))) = Inr False"
proof -
  have h1: "native_sym_support fresh_session" by (simp add: fresh_session_def)
  have h3: "raising_mapper [(''main'', 4096, ''function'', 16), (''counter'', 8192, ''object'', 8)]
        (mapper fresh_session) = (Some ''objcopy failed'', [])"
    by (simp add: raising_mapper_def fresh_session_def)
  note th = update_symbols_downgrades [where add_native_symbols = raising_mapper
      and s = fresh_session and add_later = recording_mapper
      and globals_later = "[]" and funcs_later = "[]", OF h1 build_syms_main_counter h3]
  have ev: "(snd (text_base_addr fresh_session))\<lparr>mapper_text_base_addr := fst (text_base_addr fresh_session),
               mapper := [], native_sym_support := False,
               console := console fresh_session @ [Err (''Failed to set symbols natively: '' @ ''objcopy failed'')]\<rparr>
      = fresh_session\<lparr>text_base_addr_cache := Some PyNone, native_sym_support := False,
           console := [Err ''Failed to set symbols natively: objcopy failed'']\<rparr>"
    by (simp add: fresh_session_def text_base_addr_def)
  from th [THEN conjunct1] th [THEN conjunct2, THEN conjunct1] h1 build_syms_main_counter h3 show ?thesis
    unfolding ev by blast
qed

subsection \<open>Variable materialisation\<close>

lemma bind_reg_var_ends:
  "bind_reg_var parse_and_eval execute e g = (b, g')
     \<Longrightarrow> reg_var_ends parse_and_eval execute e g b g'"
proof -
  assume run: "bind_reg_var parse_and_eval execute e g = (b, g')"
  obtain var_name var where e: "e = (var_name, var)" by (cases e)
  let ?expr = "reg_expr (clean_type_str (rv_type var)) (reg_name var)"
  let ?fallback = "''set $'' @ var_name @ '' = ($'' @ reg_name var @ '')''"
  obtain r g1 where pe: "parse_and_eval ?expr g = (r, g1)"
    by (cases "parse_and_eval ?expr g")
  have fallback: "reg_var_ends parse_and_eval execute e g b g'"
    if fails: "typed_reg_fails parse_and_eval execute e g g2"
      and rest: "(case execute ?fallback g2 of
                    (True, g3) \<Rightarrow> (Untyped, g3) | (False, g3) \<Rightarrow> (Skipped, g3)) = (b, g')"
    for g2
  proof -
    obtain ok g3 where ex: "execute ?fallback g2 = (ok, g3)"
      by (cases "execute ?fallback g2")
    show ?thesis
    proof (cases ok)
      case True
      with rest ex have "b = Untyped" "g3 = g'" by simp_all
      with fails ex True e show ?thesis by (auto intro: reg_untyped)
    next
      case False
      with rest ex have "b = Skipped" "g3 = g'" by simp_all
      with fails ex False e show ?thesis by (auto intro: reg_skipped)
    qed
  qed
  show ?thesis
  proof (cases r)
    case None
    with pe e have "typed_reg_fails parse_and_eval execute e g g1"
      by (auto intro: eval_raises)
    moreover from run e pe None
    have "(case execute ?fallback g1 of
             (True, g3) \<Rightarrow> (Untyped, g3) | (False, g3) \<Rightarrow> (Skipped, g3)) = (b, g')"
      by (simp add: bind_reg_var_def)
    ultimately show ?thesis by (rule fallback)
  next
    case (Some val)
    obtain ok g2 where ex: "execute (''set $'' @ var_name @ '' = '' @ val) g1 = (ok, g2)"
      by (cases "execute (''set $'' @ var_name @ '' = '' @ val) g1")
    show ?thesis
    proof (cases ok)
      case True
      with run e pe Some ex have "b = Typed" "g2 = g'"
        by (simp_all add: bind_reg_var_def)
      with pe Some ex True e show ?thesis by (auto intro: reg_typed)
    next
      case False
      with pe Some ex e have "typed_reg_fails parse_and_eval execute e g g2"
        by (auto intro: set_raises)
      moreover from run e pe Some ex False
      have "(case execute ?fallback g2 of
               (True, g3) \<Rightarrow> (Untyped, g3) | (False, g3) \<Rightarrow> (Skipped, g3)) = (b, g')"
        by (simp add: bind_reg_var_def)
      ultimately show ?thesis by (rule fallback)
    qed
  qed
qed

lemma reg_vars_loop_ends:
  "reg_vars_loop parse_and_eval execute rvs g = (bs, g')
     \<Longrightarrow> vars_end (reg_var_ends parse_and_eval execute) rvs g bs g'"
proof (induction rvs arbitrary: g bs g')
  case Nil
  then show ?case by (auto intro: no_vars)
next
  case (Cons e rvs)
  obtain b g1 where s1: "bind_reg_var parse_and_eval execute e g = (b, g1)"
    by (cases "bind_reg_var parse_and_eval execute e g")
  obtain bs1 g2 where s2: "reg_vars_loop parse_and_eval execute rvs g1 = (bs1, g2)"
    by (cases "reg_vars_loop parse_and_eval execute rvs g1")
  from Cons.prems s1 s2 have eq: "bs = b # bs1" "g' = g2" by simp_all
  from bind_reg_var_ends [OF s1] Cons.IH [OF s2] show ?case
    unfolding eq by (rule next_var)
qed

lemma bind_stack_var_ends:
  assumes "valid_offset (fst e)"
  shows "\<exists>b g'. bind_stack_var execute e g = (Inr b, g') \<and> stack_var_ends execute e g b g'"
proof -
  obtain offset_str var where e: "e = (offset_str, var)" by (cases e)
  from assms e obtain offset offset_text
    where p: "int_base0 offset_str = Some offset" and t: "str_int offset = Some offset_text"
    by (auto simp: valid_offset_def split: option.splits)
  let ?typed = "''set $'' @ sv_name var @ '' = '' @
                  stack_expr (clean_type_str (sv_type var)) offset_text"
  let ?untyped = "''set $'' @ sv_name var @ '' = ($fp - '' @ offset_text @ '')''"
  obtain ok1 g1 where x1: "execute ?typed g = (ok1, g1)" by (cases "execute ?typed g")
  obtain ok2 g2 where x2: "execute ?untyped g1 = (ok2, g2)" by (cases "execute ?untyped g1")
  show ?thesis
  proof (cases ok1)
    case True
    with e p t x1 have "bind_stack_var execute e g = (Inr Typed, g1)"
      by (simp add: bind_stack_var_def)
    moreover from p t x1 True e have "stack_var_ends execute e g Typed g1"
      by (auto intro: stack_typed)
    ultimately show ?thesis by blast
  next
    case False
    note f1 = False
    show ?thesis
    proof (cases ok2)
      case True
      with e p t x1 x2 f1 have "bind_stack_var execute e g = (Inr Untyped, g2)"
        by (simp add: bind_stack_var_def)
      moreover from p t x1 x2 f1 True e have "stack_var_ends execute e g Untyped g2"
        by (auto intro: stack_untyped)
      ultimately show ?thesis by blast
    next
      case False
      with e p t x1 x2 f1 have "bind_stack_var execute e g = (Inr Skipped, g2)"
        by (simp add: bind_stack_var_def)
      moreover from p t x1 x2 f1 False e have "stack_var_ends execute e g Skipped g2"
        by (auto intro: stack_skipped)
      ultimately show ?thesis by blast
    qed
  qed
qed

lemma stack_vars_loop_ends:
  "list_all valid_offset (map fst svs) \<Longrightarrow>
     \<exists>bs g'. stack_vars_loop execute svs g = (Inr bs, g')
        \<and> vars_end (stack_var_ends execute) svs g bs g'"
proof (induction svs arbitrary: g)
  case Nil
  then show ?case by (auto intro: no_vars)
next
  case (Cons e svs)
  from Cons.prems have "valid_offset (fst e)" by simp
  from bind_stack_var_ends [OF this, where execute = execute and g = g] obtain b g1
    where s1: "bind_stack_var execute e g = (Inr b, g1)"
      and e1: "stack_var_ends execute e g b g1"
    by blast
  from Cons.prems have "list_all valid_offset (map fst svs)" by simp
  from Cons.IH [OF this, where g = g1] obtain bs g2
    where s2: "stack_vars_loop execute svs g1 = (Inr bs, g2)"
      and e2: "vars_end (stack_var_ends execute) svs g1 bs g2"
    by blast
  from s1 s2 have "stack_vars_loop execute (e # svs) g = (Inr (b # bs), g2)" by simp
  moreover from e1 e2 have "vars_end (stack_var_ends execute) (e # svs) g (b # bs) g2"
    by (rule next_var)
  ultimately show ?case by blast
qed

lemma vars_end_length: "vars_end ends es g bs g' \<Longrightarrow> length bs = length es"
  by (induction rule: vars_end.induct) simp_all

text \<open>
  The relations are exactly what one round of each loop computes, so the debugger's
  answers fix how a variable ends: the ways exclude one another.
\<close>

lemma reg_var_ends_run:
  "reg_var_ends parse_and_eval execute e g b g'
     \<Longrightarrow> bind_reg_var parse_and_eval execute e g = (b, g')"
  by (auto elim!: reg_var_ends.cases typed_reg_fails.cases simp: bind_reg_var_def)

lemma stack_var_ends_run:
  "stack_var_ends execute e g b g' \<Longrightarrow> bind_stack_var execute e g = (Inr b, g')"
  by (auto elim!: stack_var_ends.cases simp: bind_stack_var_def)

lemma reg_var_ends_unique:
  assumes "reg_var_ends parse_and_eval execute e g b g'"
    and "reg_var_ends parse_and_eval execute e g c g''"
  shows "b = c \<and> g' = g''"
  using reg_var_ends_run [OF assms(1)] reg_var_ends_run [OF assms(2)] by simp

lemma stack_var_ends_unique:
  assumes "stack_var_ends execute e g b g'"
    and "stack_var_ends execute e g c g''"
  shows "b = c \<and> g' = g''"
  using stack_var_ends_run [OF assms(1)] stack_var_ends_run [OF assms(2)] by simp

text \<open>
  C4, as amended. When every stack offset is an integer literal that the pass can convert
  and format, the pass returns without raising, whatever the type strings are and
  whatever the debugger answers. Its result lists one ending per variable, first the
  register variables and then the stack variables, and each variable ends in one of the
  three ways: the typed \<open>set\<close> command was accepted and no other was issued; or the typed
  attempt was refused and the untyped \<open>set\<close> was accepted; or both were refused and the
  variable was skipped. No variable has more than one accepted command.
\<close>

theorem update_function_data_completes:
  assumes "list_all valid_offset (map fst stack_vars)"
  shows "\<exists>rbs sbs g1 g'.
           update_function_data parse_and_eval execute reg_vars stack_vars g = (Inr (rbs @ sbs), g')
           \<and> vars_end (reg_var_ends parse_and_eval execute) reg_vars g rbs g1
           \<and> vars_end (stack_var_ends execute) stack_vars g1 sbs g'
           \<and> length rbs = length reg_vars \<and> length sbs = length stack_vars"
proof -
  obtain rbs g1 where r: "reg_vars_loop parse_and_eval execute reg_vars g = (rbs, g1)"
    by (cases "reg_vars_loop parse_and_eval execute reg_vars g")
  from stack_vars_loop_ends [OF assms, where execute = execute and g = g1] obtain sbs g2
    where s: "stack_vars_loop execute stack_vars g1 = (Inr sbs, g2)"
      and se: "vars_end (stack_var_ends execute) stack_vars g1 sbs g2"
    by blast
  note re = reg_vars_loop_ends [OF r]
  from r s have "update_function_data parse_and_eval execute reg_vars stack_vars g
      = (Inr (rbs @ sbs), g2)"
    by (simp add: update_function_data_def)
  with re se vars_end_length [OF re] vars_end_length [OF se] show ?thesis by blast
qed

lemma valid_offset_0x10: "valid_offset ''0x10''"
  by code_simp

theorem update_function_data_completes_witness:
  "list_all valid_offset (map fst [(''0x10'', \<lparr>sv_type = ''unsigned int'', sv_name = ''buf''\<rparr>)])
   \<and> (\<exists>rbs sbs g1 g'.
         update_function_data sample_parse_and_eval sample_execute
           [(''v1'', \<lparr>rv_type = ''__int64'', reg_name = ''rax''\<rparr>)]
           [(''0x10'', \<lparr>sv_type = ''unsigned int'', sv_name = ''buf''\<rparr>)] []
           = (Inr (rbs @ sbs), g')
         \<and> vars_end (reg_var_ends sample_parse_and_eval sample_execute)
             [(''v1'', \<lparr>rv_type = ''__int64'', reg_name = ''rax''\<rparr>)] [] rbs g1
         \<and> vars_end (stack_var_ends sample_execute)
             [(''0x10'', \<lparr>sv_type = ''unsigned int'', sv_name = ''buf''\<rparr>)] g1 sbs g'
         \<and> length rbs = length [(''v1'', \<lparr>rv_type = ''__int64'', reg_name = ''rax''\<rparr>)]
         \<and> length sbs = length [(''0x10'', \<lparr>sv_type = ''unsigned int'', sv_name = ''buf''\<rparr>)])"
proof -
  have h: "list_all valid_offset
             (map fst [(''0x10'', \<lparr>sv_type = ''unsigned int'', sv_name = ''buf''\<rparr>)])"
    by (simp add: valid_offset_0x10)
  from update_function_data_completes [OF h, where parse_and_eval = sample_parse_and_eval
      and execute = sample_execute and g = "[]"
      and reg_vars = "[(''v1'', \<lparr>rv_type = ''__int64'', reg_name = ''rax''\<rparr>)]"] h
  show ?thesis by blast
qed

lemma sample_pass_bindings:
  "update_function_data sample_parse_and_eval sample_execute
     [(''v1'', \<lparr>rv_type = ''__int64'', reg_name = ''rax''\<rparr>)]
     [(''0x10'', \<lparr>sv_type = ''unsigned int'', sv_name = ''buf''\<rparr>)] []
   = (Inr [Untyped, Typed], [''set $v1 = ($rax)'', ''set $buf = (uint*) ($fp - 16)''])"
  by code_simp

text \<open>
  As first stated, malformed offsets included, C4 fails: the offset is converted outside
  the \<open>try\<close> blocks, and \<open>ValueError\<close> leaves the pass after the register variables
  were handled.
\<close>

theorem malformed_offset_counterexample:
  "update_function_data sample_parse_and_eval sample_execute
     [(''v1'', \<lparr>rv_type = ''__int64'', reg_name = ''rax''\<rparr>)]
     [(''abc'', \<lparr>sv_type = ''unsigned int'', sv_name = ''buf''\<rparr>)] []
   = (Inl (ValueError ''abc''), [''set $v1 = ($rax)''])"
  by code_simp

subsection \<open>Command interface\<close>

lemma split_disconnect: "split ''disconnect ida'' = [''disconnect'', ''ida'']"
  by code_simp

text \<open>
  C7. The disconnect handler reads an attribute \<open>name\<close> that the namespace of the parser
  does not have: every disconnect command, the first as much as the second, ends in
  \<open>AttributeError\<close> before the transport is asked to disconnect and before anything is
  printed, and leaves the session as it was.
\<close>

theorem handle_disconnect_raises:
  "handle_cmd connect disconnect (namespace ''disconnect'' n h p b) s
     = (Inl (AttributeError ''name''), s)
   \<and> invoke choice_parser connect disconnect ''disconnect ida'' s
     = (Inl (AttributeError ''name''), s)"
proof -
  have a: "handle_cmd connect disconnect (namespace ''disconnect'' n h p b) s
     = (Inl (AttributeError ''name''), s)" for n h p b
    by (simp add: handle_cmd_def handle_disconnect_def namespace_def getattr_def)
  have "choice_parser [''disconnect'', ''ida''] = Parsed ''disconnect'' ''ida'' ''localhost'' 3662 None"
    by (simp add: choice_parser_def commands_def)
  then have "invoke choice_parser connect disconnect ''disconnect ida'' s
     = (Inl (AttributeError ''name''), s)"
    by (simp add: invoke_def split_disconnect a)
  with a show ?thesis by simp
qed

text \<open>
  C8, as amended. When the transport refuses the connection, the error is printed and no
  success is reported; the client's name and text segment base have been overwritten with
  the arguments of the attempt before the transport was tried, and they stay so: the
  session afterwards is the one the transport returned, plus the error line.
\<close>

theorem failed_connect_state:
  assumes "n \<noteq> []"
    and "connect (PyStr n) (PyStr h) (PyInt p)
           (s\<lparr>text_segment_base_addr := (case b of None \<Rightarrow> PyNone | Some x \<Rightarrow> PyInt x),
              client_name := PyStr n\<rparr>) = (False, s')"
  shows "handle_connect connect (namespace c n h p b) s
           = (Inr (), s'\<lparr>console := console s' @ [Err ''Failed to connect to decompiler!'']\<rparr>)"
  using assms
  by (simp add: handle_connect_def namespace_def getattr_def)

theorem failed_connect_state_witness:
  "''ida'' \<noteq> []
   \<and> refusing_connect (PyStr ''ida'') (PyStr ''localhost'') (PyInt 3662)
        (fresh_session\<lparr>text_segment_base_addr := (case Some 4096 of None \<Rightarrow> PyNone | Some x \<Rightarrow> PyInt x),
           client_name := PyStr ''ida''\<rparr>)
       = (False, fresh_session\<lparr>text_segment_base_addr := PyInt 4096, client_name := PyStr ''ida''\<rparr>)
   \<and> handle_connect refusing_connect (namespace ''connect'' ''ida'' ''localhost'' 3662 (Some 4096))
        fresh_session
       = (Inr (), fresh_session\<lparr>text_segment_base_addr := PyInt 4096, client_name := PyStr ''ida'',
                    console := [Err ''Failed to connect to decompiler!'']\<rparr>)"
proof -
  have h1: "''ida'' \<noteq> []" by simp
  have h2: "refusing_connect (PyStr ''ida'') (PyStr ''localhost'') (PyInt 3662)
        (fresh_session\<lparr>text_segment_base_addr := (case Some 4096 of None \<Rightarrow> PyNone | Some x \<Rightarrow> PyInt x),
           client_name := PyStr ''ida''\<rparr>)
       = (False, fresh_session\<lparr>text_segment_base_addr := PyInt 4096, client_name := PyStr ''ida''\<rparr>)"
    by (simp add: refusing_connect_def)
  have "handle_connect refusing_connect (namespace ''connect'' ''ida'' ''localhost'' 3662 (Some 4096))
        fresh_session
       = (Inr (), fresh_session\<lparr>text_segment_base_addr := PyInt 4096, client_name := PyStr ''ida'',
                    console := [Err ''Failed to connect to decompiler!'']\<rparr>)"
    using failed_connect_state [where connect = refusing_connect and s = fresh_session
        and c = "''connect''", OF h1 h2]
    by (simp add: fresh_session_def)
  with h1 h2 show ?thesis by blast
qed

text \<open>
  As first stated, C8 fails: after a refused connection from a fresh session the name and
  the base address are those of the attempt.
\<close>

theorem failed_connect_counterexample:
  "client_name (snd (handle_connect refusing_connect
       (namespace ''connect'' ''ida'' ''localhost'' 3662 (Some 4096)) fresh_session)) = PyStr ''ida''
   \<and> client_name fresh_session = PyNone
   \<and> text_segment_base_addr (snd (handle_connect refusing_connect
       (namespace ''connect'' ''ida'' ''localhost'' 3662 (Some 4096)) fresh_session)) = PyInt 4096
   \<and> text_segment_base_addr fresh_session = PyNone"
  by (simp add: handle_connect_def namespace_def getattr_def refusing_connect_def fresh_session_def)

text \<open>
  C9. The parse failures are not all caught. The parser exits on a missing required
  argument: for the command \<open>connect\<close> without a name, and for \<open>info\<close> without a name,
  \<open>SystemExit\<close> passes through the \<open>except\<close> clause and leaves \<open>invoke\<close>; neither the
  error line nor the help text is printed. The session is left as it was.
\<close>

theorem invoke_missing_argument_exits:
  "invoke choice_parser connect disconnect ''connect'' s = (Inl SystemExit, s)
   \<and> invoke choice_parser connect disconnect ''info'' s = (Inl SystemExit, s)"
proof -
  have "split ''connect'' = [''connect'']" "split ''info'' = [''info'']"
    by code_simp+
  then show ?thesis
    by (simp add: invoke_def choice_parser_def commands_def)
qed

text \<open>
  A failure that the parser raises as an exception is caught: \<open>invoke\<close> prints the error
  and the help text, returns normally, calls no handler, and changes nothing in the
  session but the printed lines. An unknown command is such a failure.
\<close>

lemma invoke_parse_failure:
  assumes "parse_args (split arg) = Raises_Exception e"
  shows "invoke parse_args connect disconnect arg s
           = (Inr (), s\<lparr>console := console s @ [Err (''Error parsing args: '' @ e), Help]\<rparr>)"
  using assms by (simp add: invoke_def)

lemma split_frob: "split ''frobnicate ida'' = [''frobnicate'', ''ida'']"
  by code_simp

lemma invoke_unknown_command:
  "console (snd (invoke choice_parser refusing_connect id ''frobnicate ida'' fresh_session))
     = [Err (''Error parsing args: argument command: invalid choice: '' @ [CHR 0x27] @
             ''frobnicate'' @ [CHR 0x27] @ '' (choose from '' @ [CHR 0x27] @ ''connect'' @
             [CHR 0x27] @ '', '' @ [CHR 0x27] @ ''disconnect'' @ [CHR 0x27] @ '', '' @
             [CHR 0x27] @ ''info'' @ [CHR 0x27] @ '')''), Help]"
proof -
  have "choice_parser (split ''frobnicate ida'')
     = Raises_Exception (''argument command: invalid choice: '' @ [CHR 0x27] @
             ''frobnicate'' @ [CHR 0x27] @ '' (choose from '' @ [CHR 0x27] @ ''connect'' @
             [CHR 0x27] @ '', '' @ [CHR 0x27] @ ''disconnect'' @ [CHR 0x27] @ '', '' @
             [CHR 0x27] @ ''info'' @ [CHR 0x27] @ '')'')"
    by (simp add: split_frob choice_parser_def commands_def)
  from invoke_parse_failure [where parse_args = choice_parser and connect = refusing_connect
      and disconnect = id and s = fresh_session, OF this]
  show ?thesis by (simp add: fresh_session_def)
qed

text \<open>An exit of the parser is not caught, for any parser; the session is untouched.\<close>

lemma invoke_parser_exit:
  "parse_args (split arg) = Raises_SystemExit \<Longrightarrow>
     invoke parse_args connect disconnect arg s = (Inl SystemExit, s)"
  by (simp add: invoke_def)

end
